theory Spec2Isabelle
  imports Main
begin

section \<open>The volume resource handler of the Rancher provider\<close>

text \<open>
  The handler file declares five lifecycle callbacks for a volume (create, read, update,
  delete, import) and the refresh closure \<open>VolumeStateRefreshFunc\<close> that the host
  library's state poller calls. The callbacks talk to three collaborators: the scope
  resolver (\<open>EnvironmentClient\<close>, \<open>GlobalClient\<close>), the remote API client
  (\<open>Volume.Create\<close>, \<open>Volume.ById\<close>, \<open>Volume.Update\<close>,
  \<open>Volume.ActionRemove\<close>) and the poller (\<open>WaitForState\<close>).
\<close>

subsection \<open>Data\<close>

text \<open>The fields of the client's \<open>Volume\<close> struct that the handler reads or writes.\<close>

record Volume =
  Id' :: string
  Name :: string
  Description :: string
  Driver :: string
  AccountId :: string
  State :: string
  Removed :: string

text \<open>
  Go's \<open>error\<close> values. \<open>ApiError\<close> is an error handed back by a collaborator.
  \<open>Errorf prefix e\<close> is \<open>fmt.Errorf\<close> called with a format that ends in the
  verb for the error \<open>e\<close>: \<open>prefix\<close> is the formatted text before that verb.
  The two poller errors carry the state last observed and the wanted target states.
\<close>

datatype error =
    ApiError string
  | UnexpectedStateError string "string list"
  | TimeoutError string "string list"
  | Errorf string error

text \<open>A Go call either returns or panics (here: a nil pointer dereference).\<close>

datatype 'a outcome = Return 'a | Panic

text \<open>
  The declared state \<open>*schema.ResourceData\<close>: the id and the four string attributes of
  the schema (\<open>name\<close>, \<open>driver\<close>, \<open>description\<close>, \<open>environment_id\<close>).
\<close>

record ResourceData =
  rd_id :: string
  rd_name :: string
  rd_driver :: string
  rd_description :: string
  rd_environment_id :: string

definition SetId :: "string \<Rightarrow> ResourceData \<Rightarrow> ResourceData" where
  "SetId v d = d\<lparr>rd_id := v\<rparr>"

text \<open>
  The client a callback works with: the one resolved for an environment id, or the
  global one.
\<close>

datatype RancherClient = Scoped string | Global

text \<open>
  Every call a callback makes to a collaborator is appended to a history. The history is
  the only state shared with the collaborators: what a collaborator answers is a function
  of the history so far and of the call's arguments, so an answer may change from one poll
  to the next.
\<close>

datatype call =
    CallEnvironmentClient string
  | CallGlobalClient
  | CallCreate RancherClient Volume
  | CallById RancherClient string
  | CallUpdate RancherClient Volume Volume
  | CallActionRemove RancherClient "Volume option"
  | CallWaitForState "string list" "string list"

text \<open>
  The collaborators. \<open>VolumeById\<close> answers \<open>Inr None\<close> for the client's
  \<open>(nil, nil)\<close>: no volume and no error. \<open>removed\<close> is the helper of the
  provider package that recognises a removed state; its body is not part of the handler
  file, so it is a parameter. \<open>polls\<close> is the number of further fetches the poller's
  wall-clock timeout admits after the first one.
\<close>

record Remote =
  EnvironmentClient :: "call list \<Rightarrow> string \<Rightarrow> error option"
  GlobalClient :: "call list \<Rightarrow> error option"
  VolumeCreate :: "call list \<Rightarrow> RancherClient \<Rightarrow> Volume \<Rightarrow> error + Volume"
  VolumeById :: "call list \<Rightarrow> RancherClient \<Rightarrow> string \<Rightarrow> error + Volume option"
  VolumeUpdate :: "call list \<Rightarrow> RancherClient \<Rightarrow> Volume \<Rightarrow> Volume \<Rightarrow> error + Volume"
  VolumeActionRemove :: "call list \<Rightarrow> RancherClient \<Rightarrow> Volume option \<Rightarrow> error option"
  removed :: "string \<Rightarrow> bool"
  polls :: nat

subsection \<open>Read\<close>

type_synonym handler_result = "error option outcome \<times> ResourceData \<times> call list"

definition resourceRancherVolumeRead :: "Remote \<Rightarrow> ResourceData \<Rightarrow> call list \<Rightarrow> handler_result" where
  "resourceRancherVolumeRead R d h =
    (let env = rd_environment_id d; h1 = h @ [CallEnvironmentClient env] in
     case EnvironmentClient R h env of
       Some err \<Rightarrow> (Return (Some err), d, h1)
     | None \<Rightarrow>
        (let client = Scoped env; h2 = h1 @ [CallById client (rd_id d)] in
         case VolumeById R h1 client (rd_id d) of
           Inl err \<Rightarrow> (Return (Some err), d, h2)
         | Inr None \<Rightarrow> (Return None, SetId [] d, h2)
         | Inr (Some volume) \<Rightarrow>
            if removed R (State volume) then (Return None, SetId [] d, h2)
            else (Return None,
                  d\<lparr>rd_description := Description volume,
                    rd_name := Name volume,
                    rd_driver := Driver volume,
                    rd_environment_id := AccountId volume\<rparr>, h2)))"

subsection \<open>The poller\<close>

text \<open>
  What the refresh closure hands to the poller: Go's triple \<open>(result, state, error)\<close>.
  The closure of this file returns either \<open>(nil, "", err)\<close> or a volume with its
  state and a nil error, so the triple is a sum.
\<close>

type_synonym refresh_result = "(error + Volume \<times> string) outcome"

record StateChangeConf =
  Pending :: "string list"
  Target :: "string list"
  Refresh :: "call list \<Rightarrow> refresh_result \<times> call list"
  Timeout :: nat
  Delay :: nat
  MinTimeout :: nat

text \<open>
  \<open>VolumeStateRefreshFunc\<close>: one lookup by id. When the lookup answers no volume and no
  error, \<open>env\<close> is nil and the return statement evaluates \<open>env.State\<close>: a nil
  pointer dereference.
\<close>

definition VolumeStateRefreshFunc ::
    "Remote \<Rightarrow> RancherClient \<Rightarrow> string \<Rightarrow> call list \<Rightarrow> refresh_result \<times> call list" where
  "VolumeStateRefreshFunc R client volumeID h =
    (let h1 = h @ [CallById client volumeID] in
     case VolumeById R h client volumeID of
       Inl err \<Rightarrow> (Return (Inl err), h1)
     | Inr None \<Rightarrow> (Panic, h1)
     | Inr (Some env) \<Rightarrow> (Return (Inr (env, State env)), h1))"

text \<open>
  Modelled from the spec: \<open>StateChangeConf.WaitForState\<close> belongs to the host library
  and its body is not among the sources. The specification's poller (section 4.1) is:
  call fetch; a transport error aborts and is surfaced; a state in the target set returns
  success at once; a state in the pending set polls again; a state in neither set aborts
  with an unexpected-state error; exceeding the timeout while the state is pending aborts
  with a timeout error. The pacing between two fetches is left to the implementation, so
  the timeout is counted in fetches (\<open>polls\<close>) and the three durations of the request
  are carried but not interpreted. A panic of the closure ends the call.
\<close>

datatype verdict = Done "(error + Volume) outcome" | Again string

text \<open>
  Modelled from the spec: one fetch and its classification. The target set is tested
  before the pending set, as the specification's algorithm lists them.
\<close>

definition observe :: "StateChangeConf \<Rightarrow> call list \<Rightarrow> verdict \<times> call list" where
  "observe conf h =
    (case Refresh conf h of
       (Panic, h1) \<Rightarrow> (Done Panic, h1)
     | (Return (Inl err), h1) \<Rightarrow> (Done (Return (Inl err)), h1)
     | (Return (Inr (res, currentState)), h1) \<Rightarrow>
         if currentState \<in> set (Target conf) then (Done (Return (Inr res)), h1)
         else if currentState \<in> set (Pending conf) then (Again currentState, h1)
         else (Done (Return (Inl (UnexpectedStateError currentState (Target conf)))), h1))"

text \<open>
  Modelled from the spec: the loop of the poller (section 4.1). The first fetch is always
  made; \<open>n\<close> counts the fetches that may follow it before the timeout.
\<close>

fun refreshLoop :: "nat \<Rightarrow> StateChangeConf \<Rightarrow> call list \<Rightarrow> (error + Volume) outcome \<times> call list" where
  "refreshLoop 0 conf h =
    (case observe conf h of
       (Done r, h1) \<Rightarrow> (r, h1)
     | (Again currentState, h1) \<Rightarrow>
         (Return (Inl (TimeoutError currentState (Target conf))), h1))"
| "refreshLoop (Suc n) conf h =
    (case observe conf h of
       (Done r, h1) \<Rightarrow> (r, h1)
     | (Again currentState, h1) \<Rightarrow> refreshLoop n conf h1)"

text \<open>
  Modelled from the spec: the entry point of the poller. It records the request in the
  history and runs the loop with the budget of the remote.
\<close>

definition WaitForState ::
    "Remote \<Rightarrow> StateChangeConf \<Rightarrow> call list \<Rightarrow> (error + Volume) outcome \<times> call list" where
  "WaitForState R conf h =
    refreshLoop (polls R) conf (h @ [CallWaitForState (Pending conf) (Target conf)])"

subsection \<open>The three convergence requests\<close>

text \<open>Durations are in seconds: ten minutes, one second, three seconds.\<close>

definition createStateConf :: "Remote \<Rightarrow> RancherClient \<Rightarrow> string \<Rightarrow> StateChangeConf" where
  "createStateConf R client volumeID =
    \<lparr>Pending = [''inactive''],
     Target = [''inactive''],
     Refresh = VolumeStateRefreshFunc R client volumeID,
     Timeout = 600, Delay = 1, MinTimeout = 3\<rparr>"

definition drainStateConf :: "Remote \<Rightarrow> RancherClient \<Rightarrow> string \<Rightarrow> StateChangeConf" where
  "drainStateConf R client volumeID =
    \<lparr>Pending = [''active'', ''deactivating''],
     Target = [''inactive'', ''detached''],
     Refresh = VolumeStateRefreshFunc R client volumeID,
     Timeout = 600, Delay = 1, MinTimeout = 3\<rparr>"

definition removeStateConf :: "Remote \<Rightarrow> RancherClient \<Rightarrow> string \<Rightarrow> StateChangeConf" where
  "removeStateConf R client volumeID =
    \<lparr>Pending = [''inactive'', ''detached'', ''removed'', ''removing''],
     Target = [''removed''],
     Refresh = VolumeStateRefreshFunc R client volumeID,
     Timeout = 600, Delay = 1, MinTimeout = 3\<rparr>"

subsection \<open>Create, update, delete\<close>

definition resourceRancherVolumeCreate :: "Remote \<Rightarrow> ResourceData \<Rightarrow> call list \<Rightarrow> handler_result" where
  "resourceRancherVolumeCreate R d h =
    (let env = rd_environment_id d; h1 = h @ [CallEnvironmentClient env] in
     case EnvironmentClient R h env of
       Some err \<Rightarrow> (Return (Some err), d, h1)
     | None \<Rightarrow>
        (let client = Scoped env;
             volume = \<lparr>Id' = [], Name = rd_name d, Description = rd_description d,
                       Driver = rd_driver d, AccountId = [], State = [], Removed = []\<rparr>;
             h2 = h1 @ [CallCreate client volume] in
         case VolumeCreate R h1 client volume of
           Inl err \<Rightarrow> (Return (Some err), d, h2)
         | Inr newVolume \<Rightarrow>
            (case WaitForState R (createStateConf R client (Id' newVolume)) h2 of
               (Panic, h3) \<Rightarrow> (Panic, d, h3)
             | (Return (Inl waitErr), h3) \<Rightarrow>
                 (Return (Some (Errorf (''Error waiting for volume ('' @ Id' newVolume
                                          @ '') to be created: '') waitErr)), d, h3)
             | (Return (Inr _), h3) \<Rightarrow>
                 resourceRancherVolumeRead R (SetId (Id' newVolume) d) h3)))"

text \<open>
  Update assigns to the fields of the fetched volume before any nil check, so a lookup
  that finds nothing panics. The result of \<open>client.Volume.Update\<close> is not bound to
  anything.
\<close>

definition resourceRancherVolumeUpdate :: "Remote \<Rightarrow> ResourceData \<Rightarrow> call list \<Rightarrow> handler_result" where
  "resourceRancherVolumeUpdate R d h =
    (let env = rd_environment_id d; h1 = h @ [CallEnvironmentClient env] in
     case EnvironmentClient R h env of
       Some err \<Rightarrow> (Return (Some err), d, h1)
     | None \<Rightarrow>
        (let client = Scoped env; h2 = h1 @ [CallById client (rd_id d)] in
         case VolumeById R h1 client (rd_id d) of
           Inl err \<Rightarrow> (Return (Some err), d, h2)
         | Inr None \<Rightarrow> (Panic, d, h2)
         | Inr (Some fetched) \<Rightarrow>
            (let volume = fetched\<lparr>Name := rd_name d, Description := rd_description d\<rparr>;
                 h3 = h2 @ [CallUpdate client volume volume];
                 _ = VolumeUpdate R h2 client volume volume in
             resourceRancherVolumeRead R d h3)))"

definition resourceRancherVolumeDelete :: "Remote \<Rightarrow> ResourceData \<Rightarrow> call list \<Rightarrow> handler_result" where
  "resourceRancherVolumeDelete R d h =
    (let id = rd_id d; env = rd_environment_id d; h1 = h @ [CallEnvironmentClient env] in
     case EnvironmentClient R h env of
       Some err \<Rightarrow> (Return (Some err), d, h1)
     | None \<Rightarrow>
        (let client = Scoped env; h2 = h1 @ [CallById client id] in
         case VolumeById R h1 client id of
           Inl err \<Rightarrow> (Return (Some err), d, h2)
         | Inr _ \<Rightarrow>
            (case WaitForState R (drainStateConf R client id) h2 of
               (Panic, h3) \<Rightarrow> (Panic, d, h3)
             | (Return (Inl waitErr), h3) \<Rightarrow>
                 (Return (Some (Errorf (''Error waiting for volume ('' @ id
                                          @ '') to be detached or inactive: '') waitErr)), d, h3)
             | (Return (Inr _), h3) \<Rightarrow>
                (let h4 = h3 @ [CallById client id] in
                 case VolumeById R h3 client id of
                   Inl err \<Rightarrow>
                     (Return (Some (Errorf (''Failed to refresh state of detached or inactive volume (''
                                              @ id @ ''): '') err)), d, h4)
                 | Inr volume \<Rightarrow>
                    (let h5 = h4 @ [CallActionRemove client volume] in
                     case VolumeActionRemove R h4 client volume of
                       Some err \<Rightarrow> (Return (Some (Errorf ''Error removing volume: '' err)), d, h5)
                     | None \<Rightarrow>
                        (case WaitForState R (removeStateConf R client id) h5 of
                           (Panic, h6) \<Rightarrow> (Panic, d, h6)
                         | (Return (Inl waitErr), h6) \<Rightarrow>
                             (Return (Some (Errorf (''Error waiting for volume ('' @ id
                                                      @ '') to be removed: '') waitErr)), d, h6)
                         | (Return (Inr _), h6) \<Rightarrow> (Return None, SetId [] d, h6)))))))"

subsection \<open>Import\<close>

text \<open>
  Modelled from the spec: \<open>splitID\<close> is a helper of the provider package whose body is
  not among the sources. The specification gives the import input as
  \<open><scope>/<id>\<close> or a bare \<open><id>\<close>: the text before the first slash is the scope
  and the text after it the id; without a slash the scope is empty.
\<close>

definition splitID :: "string \<Rightarrow> string \<times> string" where
  "splitID s =
    (if CHR ''/'' \<in> set s
     then (takeWhile (\<lambda>c. c \<noteq> CHR ''/'') s, tl (dropWhile (\<lambda>c. c \<noteq> CHR ''/'') s))
     else ([], s))"

text \<open>
  Import returns the list of resource data and an error; the resource data is the one it
  was given, changed in place, so its final value is returned beside the result. On the
  bare-id path the owning scope is read from the looked-up volume without a nil check.
\<close>

definition resourceRancherVolumeImport ::
    "Remote \<Rightarrow> ResourceData \<Rightarrow> call list
      \<Rightarrow> (ResourceData list \<times> error option) outcome \<times> ResourceData \<times> call list" where
  "resourceRancherVolumeImport R d h =
    (case splitID (rd_id d) of
       (envID, resourceID) \<Rightarrow>
        (let d1 = SetId resourceID d in
         if envID \<noteq> [] then
           (let d2 = d1\<lparr>rd_environment_id := envID\<rparr> in (Return ([d2], None), d2, h))
         else
           (let h1 = h @ [CallGlobalClient] in
            case GlobalClient R h of
              Some err \<Rightarrow> (Return ([], Some err), d1, h1)
            | None \<Rightarrow>
               (let h2 = h1 @ [CallById Global (rd_id d1)] in
                case VolumeById R h1 Global (rd_id d1) of
                  Inl err \<Rightarrow> (Return ([], Some err), d1, h2)
                | Inr None \<Rightarrow> (Panic, d1, h2)
                | Inr (Some volume) \<Rightarrow>
                   (let d2 = d1\<lparr>rd_environment_id := AccountId volume\<rparr> in
                    (Return ([d2], None), d2, h2))))))"

subsection \<open>Reading a history\<close>

text \<open>The calls a convergence phase or a removal leaves in a history, and the lookups.\<close>

fun isById :: "call \<Rightarrow> bool" where
  "isById (CallById _ _) = True"
| "isById _ = False"

fun isPhase :: "call \<Rightarrow> bool" where
  "isPhase (CallWaitForState _ _) = True"
| "isPhase (CallActionRemove _ _) = True"
| "isPhase _ = False"

fun isUpdate :: "call \<Rightarrow> bool" where
  "isUpdate (CallUpdate _ _ _) = True"
| "isUpdate _ = False"

subsection \<open>Scripted collaborators\<close>

text \<open>
  A remote for concrete runs: the k-th lookup of a run answers with the k-th entry of a
  script (no volume and no error once the script is used up); every other call succeeds.
\<close>

definition vol :: "string \<Rightarrow> Volume" where
  "vol st = \<lparr>Id' = ''1v7'', Name = ''foo'', Description = ''volume test'',
             Driver = ''rancher-nfs'', AccountId = ''1a5'', State = st, Removed = []\<rparr>"

definition scripted :: "(error + Volume option) list \<Rightarrow> Remote" where
  "scripted answers =
    \<lparr>EnvironmentClient = (\<lambda>h env. None),
     GlobalClient = (\<lambda>h. None),
     VolumeCreate = (\<lambda>h client v. Inr (v\<lparr>Id' := ''1v7'', AccountId := ''1a5'', State := ''inactive''\<rparr>)),
     VolumeById = (\<lambda>h client i.
        if length (filter isById h) < length answers
        then answers ! length (filter isById h) else Inr None),
     VolumeUpdate = (\<lambda>h client v p. Inr p),
     VolumeActionRemove = (\<lambda>h client v. None),
     removed = (\<lambda>st. st = ''removed''),
     polls = Suc (Suc (Suc (Suc 0)))\<rparr>"

definition found :: "string \<Rightarrow> error + Volume option" where
  "found st = Inr (Some (vol st))"

definition declared :: ResourceData where
  "declared = \<lparr>rd_id = ''1v7'', rd_name = ''foo2'', rd_driver = ''rancher-ebs'',
               rd_description = ''volume test - updated'', rd_environment_id = ''1a5''\<rparr>"

section \<open>Evaluation and histories\<close>

text \<open>The defining equations used to run a callback on concrete collaborators.\<close>

lemmas run_simps =
  resourceRancherVolumeRead_def resourceRancherVolumeCreate_def resourceRancherVolumeUpdate_def
  resourceRancherVolumeDelete_def resourceRancherVolumeImport_def WaitForState_def observe_def
  VolumeStateRefreshFunc_def createStateConf_def drainStateConf_def removeStateConf_def
  scripted_def found_def vol_def declared_def SetId_def splitID_def Let_def



lemma filter_isPhase_replicate [simp]:
  "filter isPhase (replicate k (CallById c i)) = []"
  by (induction k) simp_all





lemma splitID_bare: "CHR ''/'' \<notin> set i \<Longrightarrow> splitID i = ([], i)"
  by (simp add: splitID_def)

section \<open>The convergence requests (C1)\<close>




section \<open>Errors of the API calls (C2)\<close>

text \<open>
  C2 says that no error of an outbound API call is discarded. Update calls
  \<open>client.Volume.Update\<close> and drops what it returns: with an update call that fails
  and lookups that succeed, the update callback returns a nil error.
\<close>

theorem update_discards_update_error:
  "VolumeUpdate ((scripted [found ''active'', found ''active''])
        \<lparr>VolumeUpdate := (\<lambda>h c v p. Inl (ApiError ''update refused''))\<rparr>)
      [CallEnvironmentClient ''1a5'', CallById (Scoped ''1a5'') ''1v7''] (Scoped ''1a5'')
      ((vol ''active'')\<lparr>Name := ''foo2'', Description := ''volume test - updated''\<rparr>)
      ((vol ''active'')\<lparr>Name := ''foo2'', Description := ''volume test - updated''\<rparr>)
     = Inl (ApiError ''update refused'')
   \<and> fst (resourceRancherVolumeUpdate
        ((scripted [found ''active'', found ''active''])
           \<lparr>VolumeUpdate := (\<lambda>h c v p. Inl (ApiError ''update refused''))\<rparr>)
        declared []) = Return None"
  by (simp add: run_simps)

section \<open>An absent volume during the post-remove convergence (C3)\<close>

text \<open>
  C3 says that a fetch finding the volume absent during delete's post-remove convergence
  counts as reaching \<open>removed\<close>. In the run below the volume is gone once the remove
  call has been made: the first fetch of the second phase answers no volume and no error,
  the refresh closure dereferences the nil volume, and delete panics with the declared id
  still set.
\<close>

theorem delete_absent_after_remove_panics:
  "VolumeById (scripted [found ''active'', found ''inactive'', found ''inactive''])
      [CallEnvironmentClient ''1a5'', CallById (Scoped ''1a5'') ''1v7'',
       CallWaitForState [''active'', ''deactivating''] [''inactive'', ''detached''],
       CallById (Scoped ''1a5'') ''1v7'', CallById (Scoped ''1a5'') ''1v7'',
       CallActionRemove (Scoped ''1a5'') (Some (vol ''inactive'')),
       CallWaitForState [''inactive'', ''detached'', ''removed'', ''removing''] [''removed'']]
      (Scoped ''1a5'') ''1v7'' = Inr None
   \<and> resourceRancherVolumeDelete
        (scripted [found ''active'', found ''inactive'', found ''inactive'']) declared []
     = (Panic, declared,
        [CallEnvironmentClient ''1a5'', CallById (Scoped ''1a5'') ''1v7'',
         CallWaitForState [''active'', ''deactivating''] [''inactive'', ''detached''],
         CallById (Scoped ''1a5'') ''1v7'', CallById (Scoped ''1a5'') ''1v7'',
         CallActionRemove (Scoped ''1a5'') (Some (vol ''inactive'')),
         CallWaitForState [''inactive'', ''detached'', ''removed'', ''removing''] [''removed''],
         CallById (Scoped ''1a5'') ''1v7''])"
  by (simp add: run_simps)

section \<open>The two phases of delete (C4)\<close>





section \<open>The declared id after a failure (C5)\<close>



text \<open>
  The three failures of C5 all come before the id is assigned. Create ends with a read,
  after the assignment; an error of that read is returned with the new id in place.
\<close>

lemma create_read_failure_keeps_new_id:
  "resourceRancherVolumeCreate (scripted [found ''inactive'', Inl (ApiError ''connection reset'')])
      (declared\<lparr>rd_id := []\<rparr>) []
    = (Return (Some (ApiError ''connection reset'')), declared,
       [CallEnvironmentClient ''1a5'',
        CallCreate (Scoped ''1a5'')
          \<lparr>Id' = [], Name = ''foo2'', Description = ''volume test - updated'',
            Driver = ''rancher-ebs'', AccountId = [], State = [], Removed = []\<rparr>,
        CallWaitForState [''inactive''] [''inactive''],
        CallById (Scoped ''1a5'') ''1v7'', CallEnvironmentClient ''1a5'',
        CallById (Scoped ''1a5'') ''1v7''])"
  by (simp add: run_simps)

section \<open>Read (C6, C8)\<close>

text \<open>
  C6: when the lookup of a read finds no volume, or a volume whose state \<open>removed\<close>
  recognises, read clears the declared id and returns no error; when it finds a volume
  that is not removed, read writes the volume's name, description, driver and account id
  into the declared state.
\<close>

theorem read_projects_or_clears:
  assumes "EnvironmentClient R h (rd_environment_id d) = None"
    and "VolumeById R (h @ [CallEnvironmentClient (rd_environment_id d)])
           (Scoped (rd_environment_id d)) (rd_id d) = Inr r"
    and "resourceRancherVolumeRead R d h = (out, d', h')"
  shows "(r = None \<or> (\<exists>v. r = Some v \<and> removed R (State v))
            \<longrightarrow> out = Return None \<and> rd_id d' = [])
       \<and> (\<forall>v. r = Some v \<and> \<not> removed R (State v)
            \<longrightarrow> out = Return None \<and> rd_id d' = rd_id d
              \<and> rd_name d' = Name v \<and> rd_description d' = Description v
              \<and> rd_driver d' = Driver v \<and> rd_environment_id d' = AccountId v)"
  using assms unfolding resourceRancherVolumeRead_def SetId_def
  by (auto simp: Let_def split: option.splits)

text \<open>C6 on an absent volume, on a removed one and on an active one.\<close>

theorem read_projects_or_clears_witness:
  "resourceRancherVolumeRead (scripted []) declared []
     = (Return None, declared\<lparr>rd_id := []\<rparr>,
        [CallEnvironmentClient ''1a5'', CallById (Scoped ''1a5'') ''1v7''])
   \<and> resourceRancherVolumeRead (scripted [found ''removed'']) declared []
     = (Return None, declared\<lparr>rd_id := []\<rparr>,
        [CallEnvironmentClient ''1a5'', CallById (Scoped ''1a5'') ''1v7''])
   \<and> resourceRancherVolumeRead (scripted [found ''active'']) declared []
     = (Return None,
        \<lparr>rd_id = ''1v7'', rd_name = ''foo'', rd_driver = ''rancher-nfs'',
          rd_description = ''volume test'', rd_environment_id = ''1a5''\<rparr>,
        [CallEnvironmentClient ''1a5'', CallById (Scoped ''1a5'') ''1v7''])"
proof -
  let ?H = "[CallEnvironmentClient ''1a5'', CallById (Scoped ''1a5'') ''1v7'']"
  have c: "EnvironmentClient (scripted xs) [] (rd_environment_id declared) = None" for xs
    by (simp add: scripted_def)
  have l1: "VolumeById (scripted []) ([] @ [CallEnvironmentClient (rd_environment_id declared)])
           (Scoped (rd_environment_id declared)) (rd_id declared) = Inr None"
    by (simp add: scripted_def)
  have l2: "VolumeById (scripted [found ''removed'']) ([] @ [CallEnvironmentClient (rd_environment_id declared)])
           (Scoped (rd_environment_id declared)) (rd_id declared) = Inr (Some (vol ''removed''))"
    by (simp add: scripted_def found_def)
  have l3: "VolumeById (scripted [found ''active'']) ([] @ [CallEnvironmentClient (rd_environment_id declared)])
           (Scoped (rd_environment_id declared)) (rd_id declared) = Inr (Some (vol ''active''))"
    by (simp add: scripted_def found_def)
  obtain o1 d1 h1 where r1: "resourceRancherVolumeRead (scripted []) declared [] = (o1, d1, h1)"
    using prod_cases3 by blast
  obtain o2 d2 h2 where r2: "resourceRancherVolumeRead (scripted [found ''removed'']) declared [] = (o2, d2, h2)"
    using prod_cases3 by blast
  obtain o3 d3 h3 where r3: "resourceRancherVolumeRead (scripted [found ''active'']) declared [] = (o3, d3, h3)"
    using prod_cases3 by blast
  have "o1 = Return None \<and> rd_id d1 = []"
    using read_projects_or_clears [OF c l1 r1] by simp
  moreover have "o2 = Return None \<and> rd_id d2 = []"
    using read_projects_or_clears [OF c l2 r2] by (simp add: scripted_def vol_def)
  moreover have "o3 = Return None \<and> rd_id d3 = rd_id declared
      \<and> rd_name d3 = Name (vol ''active'') \<and> rd_description d3 = Description (vol ''active'')
      \<and> rd_driver d3 = Driver (vol ''active'') \<and> rd_environment_id d3 = AccountId (vol ''active'')"
    using read_projects_or_clears [OF c l3 r3] by (simp add: scripted_def vol_def)
  ultimately show ?thesis
    using r1 r2 r3 by (simp add: run_simps)
qed

text \<open>
  C8: two reads in succession whose lookups answer with the same result leave the same
  declared state after the second read as after the first.
\<close>

theorem read_twice_same_bag:
  assumes "resourceRancherVolumeRead R d h = (out1, d1, h1)"
    and "resourceRancherVolumeRead R d1 h1 = (out2, d2, h2)"
    and "EnvironmentClient R h (rd_environment_id d) = None"
    and "VolumeById R (h @ [CallEnvironmentClient (rd_environment_id d)])
           (Scoped (rd_environment_id d)) (rd_id d) = Inr r"
    and "VolumeById R (h1 @ [CallEnvironmentClient (rd_environment_id d1)])
           (Scoped (rd_environment_id d1)) (rd_id d1) = Inr r"
  shows "d2 = d1"
  using assms unfolding resourceRancherVolumeRead_def SetId_def
  by (auto simp: Let_def split: option.splits if_splits)

text \<open>C8 on an active volume read twice.\<close>

theorem read_twice_same_bag_witness:
  "resourceRancherVolumeRead (scripted [found ''active'', found ''active'']) declared []
     = (Return None,
        \<lparr>rd_id = ''1v7'', rd_name = ''foo'', rd_driver = ''rancher-nfs'',
          rd_description = ''volume test'', rd_environment_id = ''1a5''\<rparr>,
        [CallEnvironmentClient ''1a5'', CallById (Scoped ''1a5'') ''1v7''])
   \<and> fst (snd (resourceRancherVolumeRead (scripted [found ''active'', found ''active''])
        \<lparr>rd_id = ''1v7'', rd_name = ''foo'', rd_driver = ''rancher-nfs'',
          rd_description = ''volume test'', rd_environment_id = ''1a5''\<rparr>
        [CallEnvironmentClient ''1a5'', CallById (Scoped ''1a5'') ''1v7'']))
     = \<lparr>rd_id = ''1v7'', rd_name = ''foo'', rd_driver = ''rancher-nfs'',
          rd_description = ''volume test'', rd_environment_id = ''1a5''\<rparr>"
proof -
  let ?R = "scripted [found ''active'', found ''active'']"
  let ?d1 = "\<lparr>rd_id = ''1v7'', rd_name = ''foo'', rd_driver = ''rancher-nfs'',
          rd_description = ''volume test'', rd_environment_id = ''1a5''\<rparr>"
  let ?h1 = "[CallEnvironmentClient ''1a5'', CallById (Scoped ''1a5'') ''1v7'']"
  have r1: "resourceRancherVolumeRead ?R declared [] = (Return None, ?d1, ?h1)"
    by (simp add: run_simps)
  obtain o2 d2 h2 where r2: "resourceRancherVolumeRead ?R ?d1 ?h1 = (o2, d2, h2)"
    using prod_cases3 by blast
  have c: "EnvironmentClient ?R [] (rd_environment_id declared) = None"
    by (simp add: scripted_def)
  have l1: "VolumeById ?R ([] @ [CallEnvironmentClient (rd_environment_id declared)])
           (Scoped (rd_environment_id declared)) (rd_id declared) = Inr (Some (vol ''active''))"
    by (simp add: scripted_def found_def)
  have l2: "VolumeById ?R (?h1 @ [CallEnvironmentClient (rd_environment_id ?d1)])
           (Scoped (rd_environment_id ?d1)) (rd_id ?d1) = Inr (Some (vol ''active''))"
    by (simp add: scripted_def found_def)
  have "d2 = ?d1"
    by (rule read_twice_same_bag [OF r1 r2 c l1 l2])
  with r1 r2 show ?thesis by simp
qed

section \<open>Import (C7, C10)\<close>



text \<open>
  C10: on a bare id, when the global lookup answers no volume and no error, import does
  not return an error: it reads the account id of the nil volume and panics.
\<close>

theorem import_bare_absent_panics:
  assumes "CHR ''/'' \<notin> set i"
    and "GlobalClient R h = None"
    and "VolumeById R (h @ [CallGlobalClient]) Global i = Inr None"
  shows "resourceRancherVolumeImport R (d\<lparr>rd_id := i\<rparr>) h
          = (Panic, d\<lparr>rd_id := i\<rparr>, h @ [CallGlobalClient, CallById Global i])"
  using assms splitID_bare [of i]
  by (simp add: resourceRancherVolumeImport_def SetId_def Let_def)

text \<open>C10 on the input \<open>vol-123\<close> with no such volume.\<close>

theorem import_bare_absent_panics_witness:
  "CHR ''/'' \<notin> set ''vol-123''
   \<and> GlobalClient (scripted []) [] = None
   \<and> VolumeById (scripted []) [CallGlobalClient] Global ''vol-123'' = Inr None
   \<and> resourceRancherVolumeImport (scripted [])
        \<lparr>rd_id = ''vol-123'', rd_name = [], rd_driver = [], rd_description = [],
          rd_environment_id = []\<rparr> []
     = (Panic,
        \<lparr>rd_id = ''vol-123'', rd_name = [], rd_driver = [], rd_description = [],
          rd_environment_id = []\<rparr>,
        [CallGlobalClient, CallById Global ''vol-123''])"
proof -
  let ?d = "\<lparr>rd_id = [], rd_name = [], rd_driver = [], rd_description = [],
          rd_environment_id = []\<rparr>"
  have a: "CHR ''/'' \<notin> set ''vol-123''" by simp
  have b: "GlobalClient (scripted []) [] = None" by (simp add: scripted_def)
  have c: "VolumeById (scripted []) ([] @ [CallGlobalClient]) Global ''vol-123'' = Inr None"
    by (simp add: scripted_def)
  from import_bare_absent_panics [OF a b c, of ?d] a b c
  show ?thesis by simp
qed

section \<open>What update sends (C9)\<close>

text \<open>
  C9: the only mutating call of an update is one \<open>Volume.Update\<close>, and the volume it
  sends is the fetched volume with the declared name and description: its driver and its
  account id are the fetched ones, whatever driver is declared.
\<close>

theorem update_sends_fetched_driver_and_scope:
  assumes "resourceRancherVolumeUpdate R d h = (out, d', h')"
    and "CallUpdate c v p \<in> set (drop (length h) h')"
  shows "(\<exists>fetched.
            VolumeById R (h @ [CallEnvironmentClient (rd_environment_id d)])
              (Scoped (rd_environment_id d)) (rd_id d) = Inr (Some fetched)
          \<and> p = fetched\<lparr>Name := rd_name d, Description := rd_description d\<rparr>
          \<and> Driver p = Driver fetched \<and> AccountId p = AccountId fetched)
       \<and> v = p \<and> c = Scoped (rd_environment_id d)
       \<and> length (filter isUpdate (drop (length h) h')) = 1
       \<and> (\<forall>c' x. CallCreate c' x \<notin> set (drop (length h) h'))
       \<and> (\<forall>c' x. CallActionRemove c' x \<notin> set (drop (length h) h'))"
  using assms
  unfolding resourceRancherVolumeUpdate_def resourceRancherVolumeRead_def SetId_def
  by (auto simp: Let_def split: option.splits sum.splits if_splits)

text \<open>
  C9 on a declared driver \<open>rancher-ebs\<close> against a remote driver \<open>rancher-nfs\<close>.
\<close>

theorem update_sends_fetched_driver_and_scope_witness:
  "resourceRancherVolumeUpdate (scripted [found ''active'', found ''active'']) declared []
     = (Return None,
        \<lparr>rd_id = ''1v7'', rd_name = ''foo'', rd_driver = ''rancher-nfs'',
          rd_description = ''volume test'', rd_environment_id = ''1a5''\<rparr>,
        [CallEnvironmentClient ''1a5'', CallById (Scoped ''1a5'') ''1v7'',
         CallUpdate (Scoped ''1a5'')
           ((vol ''active'')\<lparr>Name := ''foo2'', Description := ''volume test - updated''\<rparr>)
           ((vol ''active'')\<lparr>Name := ''foo2'', Description := ''volume test - updated''\<rparr>),
         CallEnvironmentClient ''1a5'', CallById (Scoped ''1a5'') ''1v7''])
   \<and> rd_driver declared = ''rancher-ebs''
   \<and> Driver ((vol ''active'')\<lparr>Name := ''foo2'', Description := ''volume test - updated''\<rparr>)
     = ''rancher-nfs''
   \<and> AccountId ((vol ''active'')\<lparr>Name := ''foo2'', Description := ''volume test - updated''\<rparr>)
     = ''1a5''"
proof -
  let ?R = "scripted [found ''active'', found ''active'']"
  let ?p = "(vol ''active'')\<lparr>Name := ''foo2'', Description := ''volume test - updated''\<rparr>"
  let ?d' = "\<lparr>rd_id = ''1v7'', rd_name = ''foo'', rd_driver = ''rancher-nfs'',
          rd_description = ''volume test'', rd_environment_id = ''1a5''\<rparr>"
  let ?h' = "[CallEnvironmentClient ''1a5'', CallById (Scoped ''1a5'') ''1v7'',
         CallUpdate (Scoped ''1a5'') ?p ?p,
         CallEnvironmentClient ''1a5'', CallById (Scoped ''1a5'') ''1v7'']"
  have run: "resourceRancherVolumeUpdate ?R declared [] = (Return None, ?d', ?h')"
    by (simp add: run_simps)
  have mem: "CallUpdate (Scoped ''1a5'') ?p ?p \<in> set (drop (length ([]::call list)) ?h')"
    by simp
  have look: "VolumeById ?R ([] @ [CallEnvironmentClient (rd_environment_id declared)])
              (Scoped (rd_environment_id declared)) (rd_id declared) = Inr (Some (vol ''active''))"
    by (simp add: scripted_def found_def)
  from update_sends_fetched_driver_and_scope [OF run mem] look
  have "Driver ?p = Driver (vol ''active'') \<and> AccountId ?p = AccountId (vol ''active'')"
    by auto
  with run show ?thesis by (simp add: vol_def declared_def)
qed

end
